theory Spec2Isabelle
  imports Complex_Main "HOL-Library.Word" "HOL-Library.Sublist" "HOL-Library.Log_Nat"
begin

section \<open>The review route of the CV Review App\<close>

text \<open>
  The development embeds the request handler \<^verbatim>\<open>POST\<close> of the review route
  (\<^verbatim>\<open>src/app/page.tsx\<close>, lines 935 to 1144; the file holds several modules, the route
  is the last one) together with its helpers \<^verbatim>\<open>processFile\<close>, \<^verbatim>\<open>buildPrompt\<close> and
  \<^verbatim>\<open>sanitizeArray\<close>. The handler runs on a JavaScript engine, so the built-in operations
  it calls (\<^verbatim>\<open>JSON.parse\<close>, \<^verbatim>\<open>String.prototype.match\<close>, \<^verbatim>\<open>String.prototype.trim\<close>, \<^verbatim>\<open>String\<close>,
  \<^verbatim>\<open>Number\<close>, \<^verbatim>\<open>Boolean\<close>, \<^verbatim>\<open>Math.round\<close>) are modelled first, following ECMA-262.
\<close>

subsection \<open>Strings\<close>

text \<open>
  A JavaScript string is a sequence of 16-bit code units. String literals of the source
  are ASCII and are written through \<open>js\<close>.
\<close>

type_synonym code_unit = "16 word"
type_synonym jstring = "code_unit list"

definition js :: "string \<Rightarrow> jstring" where
  "js s = map (\<lambda>c. of_nat (of_char c)) s"

subsection \<open>Numbers\<close>

text \<open>
  A JavaScript number is a binary64 value. Every finite binary64 value is a rational, and
  the operations the handler applies to numbers (\<^verbatim>\<open>Number.isFinite\<close>, \<^verbatim>\<open>Math.round\<close>,
  \<^verbatim>\<open>Math.max\<close>, \<^verbatim>\<open>Math.min\<close>, truthiness) are exact, so finite numbers are carried as
  rationals. The two zeros are not distinguished: both are falsy, both are finite, and
  \<^verbatim>\<open>Math.max(1, x)\<close> is 1 for either.
\<close>

datatype jsnum = Finite rat | PosInfinity | NegInfinity | NaN

text \<open>
  \<open>floor_log2 a\<close> is the integer \<open>e\<close> with \<open>2 ^ e \<le> a < 2 ^ (e + 1)\<close>, for \<open>0 < a\<close>
  (\<open>floorlog 2 n\<close> is the number of binary digits of \<open>n\<close>).
\<close>

definition floor_log2 :: "rat \<Rightarrow> int" where
  "floor_log2 a =
     (if 1 \<le> a then int (floorlog 2 (nat \<lfloor>a\<rfloor>)) - 1
      else - int (floorlog 2 (nat (\<lceil>1 / a\<rceil> - 1))))"

definition round_ties_even :: "rat \<Rightarrow> int" where
  "round_ties_even x =
     (let f = \<lfloor>x\<rfloor>; d = x - of_int f
      in if d < 1 / 2 then f else if 1 / 2 < d then f + 1 else if even f then f else f + 1)"

text \<open>
  The binary64 value of a real number (ECMA-262, "the Number value for x"): round to
  nearest, ties to even, on 53 significant bits, with the exponent no smaller than -1022
  (subnormal numbers) and overflow to an infinity.
\<close>

definition number_value :: "rat \<Rightarrow> jsnum" where
  "number_value q =
     (if q = 0 then Finite 0
      else let a = \<bar>q\<bar>;
               e = max (floor_log2 a) (- 1022);
               ulp = 2 powi (e - 52);
               r = of_int (round_ties_even (a / ulp)) * ulp
           in if 2 ^ 1024 \<le> r then (if 0 < q then PosInfinity else NegInfinity)
              else Finite (if 0 < q then r else - r))"

subsection \<open>JSON values\<close>

text \<open>
  The values \<^verbatim>\<open>JSON.parse\<close> can return. An object keeps its members in source order;
  a later member with the same key overrides an earlier one (see \<open>get_property\<close>).
\<close>

datatype json =
    JNull
  | JBool bool
  | JNum jsnum
  | JStr jstring
  | JArr "json list"
  | JObj "(jstring \<times> json) list"

subsection \<open>\<^verbatim>\<open>JSON.parse\<close>: tokens\<close>

datatype token =
    LBrace | RBrace | LBracket | RBracket | Colon | Comma
  | TString jstring
  | TNumber jsnum
  | TLiteral json

definition is_json_space :: "code_unit \<Rightarrow> bool" where
  "is_json_space c \<longleftrightarrow> c = 0x09 \<or> c = 0x0A \<or> c = 0x0D \<or> c = 0x20"

definition is_digit :: "code_unit \<Rightarrow> bool" where
  "is_digit c \<longleftrightarrow> 0x30 \<le> c \<and> c \<le> 0x39"

definition digit_value :: "code_unit \<Rightarrow> nat" where
  "digit_value c = unat c - 0x30"

text \<open>The value of a run of decimal digits, most significant first.\<close>

definition decimal :: "jstring \<Rightarrow> nat" where
  "decimal ds = foldl (\<lambda>n c. 10 * n + digit_value c) 0 ds"

definition hex_value :: "code_unit \<Rightarrow> nat option" where
  "hex_value c =
     (if 0x30 \<le> c \<and> c \<le> 0x39 then Some (unat c - 0x30)
      else if 0x41 \<le> c \<and> c \<le> 0x46 then Some (unat c - 0x41 + 10)
      else if 0x61 \<le> c \<and> c \<le> 0x66 then Some (unat c - 0x61 + 10)
      else None)"

text \<open>The four hexadecimal digits of a \<^verbatim>\<open>\uXXXX\<close> escape.\<close>

definition hex4 :: "jstring \<Rightarrow> code_unit option" where
  "hex4 cs =
     (case map hex_value (take 4 cs) of
        [Some a, Some b, Some c, Some d] \<Rightarrow> Some (of_nat (((a * 16 + b) * 16 + c) * 16 + d))
      | _ \<Rightarrow> None)"

definition single_escape :: "code_unit \<Rightarrow> code_unit option" where
  "single_escape e =
     (if e = 0x22 then Some 0x22
      else if e = 0x5C then Some 0x5C
      else if e = 0x2F then Some 0x2F
      else if e = 0x62 then Some 0x08
      else if e = 0x66 then Some 0x0C
      else if e = 0x6E then Some 0x0A
      else if e = 0x72 then Some 0x0D
      else if e = 0x74 then Some 0x09
      else None)"

text \<open>
  The characters of a JSON string after its opening quote: the decoded string and the
  input after the closing quote. Control characters below U+0020 must be escaped.
\<close>

fun lex_string :: "jstring \<Rightarrow> (jstring \<times> jstring) option" where
  "lex_string [] = None"
| "lex_string (c # cs) =
     (if c = 0x22 then Some ([], cs)
      else if c = 0x5C then
        (case cs of
           [] \<Rightarrow> None
         | e # cs' \<Rightarrow>
             if e = 0x75 then
               (case hex4 cs' of
                  None \<Rightarrow> None
                | Some u \<Rightarrow> map_option (\<lambda>(s, r). (u # s, r)) (lex_string (drop 4 cs')))
             else
               (case single_escape e of
                  None \<Rightarrow> None
                | Some u \<Rightarrow> map_option (\<lambda>(s, r). (u # s, r)) (lex_string cs')))
      else if c < 0x20 then None
      else map_option (\<lambda>(s, r). (c # s, r)) (lex_string cs))"

text \<open>
  A JSON number, \<^verbatim>\<open>-? (0 | [1-9][0-9]*) (. [0-9]+)? ([eE] [+-]? [0-9]+)?\<close>: its binary64
  value and the input after it.
\<close>

definition lex_int :: "jstring \<Rightarrow> (jstring \<times> jstring) option" where
  "lex_int cs =
     (case cs of
        [] \<Rightarrow> None
      | c # cs' \<Rightarrow>
          if c = 0x30 then Some ([c], cs')
          else if is_digit c then Some (takeWhile is_digit cs, dropWhile is_digit cs)
          else None)"

definition lex_frac :: "jstring \<Rightarrow> (jstring \<times> jstring) option" where
  "lex_frac cs =
     (case cs of
        [] \<Rightarrow> Some ([], cs)
      | c # cs' \<Rightarrow>
          if c = 0x2E then
            (if takeWhile is_digit cs' = [] then None
             else Some (takeWhile is_digit cs', dropWhile is_digit cs'))
          else Some ([], cs))"

definition lex_exp :: "jstring \<Rightarrow> (int \<times> jstring) option" where
  "lex_exp cs =
     (case cs of
        [] \<Rightarrow> Some (0, cs)
      | c # cs' \<Rightarrow>
          if c = 0x65 \<or> c = 0x45 then
            (let neg = (cs' \<noteq> [] \<and> hd cs' = 0x2D);
                 ds = (if cs' \<noteq> [] \<and> (hd cs' = 0x2D \<or> hd cs' = 0x2B) then tl cs' else cs')
             in if takeWhile is_digit ds = [] then None
                else Some ((if neg then - 1 else 1) * int (decimal (takeWhile is_digit ds)),
                           dropWhile is_digit ds))
          else Some (0, cs))"

definition lex_number :: "jstring \<Rightarrow> (jsnum \<times> jstring) option" where
  "lex_number cs =
     (let neg = (cs \<noteq> [] \<and> hd cs = 0x2D);
          cs1 = (if neg then tl cs else cs)
      in case lex_int cs1 of
           None \<Rightarrow> None
         | Some (ip, cs2) \<Rightarrow>
             (case lex_frac cs2 of
                None \<Rightarrow> None
              | Some (fp, cs3) \<Rightarrow>
                  (case lex_exp cs3 of
                     None \<Rightarrow> None
                   | Some (ex, cs4) \<Rightarrow>
                       Some (number_value
                               ((if neg then - 1 else 1)
                                 * of_nat (decimal (ip @ fp)) * 10 powi (ex - int (length fp))),
                             cs4))))"

text \<open>
  The token stream of a JSON text; \<open>None\<close> when some character starts no token. White
  space between tokens is tab, line feed, carriage return and space only.
\<close>

definition lex_literal :: "jstring \<Rightarrow> (json \<times> jstring) option" where
  "lex_literal cs =
     (if take 4 cs = js ''true'' then Some (JBool True, drop 4 cs)
      else if take 5 cs = js ''false'' then Some (JBool False, drop 5 cs)
      else if take 4 cs = js ''null'' then Some (JNull, drop 4 cs)
      else None)"

function lex :: "jstring \<Rightarrow> token list option" where
  "lex [] = Some []"
| "lex (c # cs) =
     (if is_json_space c then lex cs
      else if c = 0x7B then map_option (Cons LBrace) (lex cs)
      else if c = 0x7D then map_option (Cons RBrace) (lex cs)
      else if c = 0x5B then map_option (Cons LBracket) (lex cs)
      else if c = 0x5D then map_option (Cons RBracket) (lex cs)
      else if c = 0x3A then map_option (Cons Colon) (lex cs)
      else if c = 0x2C then map_option (Cons Comma) (lex cs)
      else if c = 0x22 then
        (case lex_string cs of
           None \<Rightarrow> None
         | Some (s, r) \<Rightarrow> map_option (Cons (TString s)) (lex r))
      else if c = 0x2D \<or> is_digit c then
        (case lex_number (c # cs) of
           None \<Rightarrow> None
         | Some (n, r) \<Rightarrow> map_option (Cons (TNumber n)) (lex r))
      else
        (case lex_literal (c # cs) of
           None \<Rightarrow> None
         | Some (v, r) \<Rightarrow> map_option (Cons (TLiteral v)) (lex r)))"
  by pat_completeness auto
termination
proof (relation "measure length", goal_cases)
  case 1
  show ?case by simp
next
  case (9 c cs x s r)
  have "length b < length a" if "lex_string a = Some (t, b)" for a t b
    using that
    by (induction a arbitrary: t b rule: lex_string.induct)
      (fastforce split: if_splits list.splits option.splits)+
  with 9 show ?case by fastforce
next
  case (10 c cs x n r)
  have int: "length b < length a" if "lex_int a = Some (t, b)" for a t b
    using that length_dropWhile_le [of is_digit "tl a"]
    by (auto simp: lex_int_def split: list.splits if_splits)
  have frac: "length b \<le> length a" if "lex_frac a = Some (t, b)" for a t b
    using that length_dropWhile_le [of is_digit "tl a"]
    by (auto simp: lex_frac_def split: list.splits if_splits)
  have exp: "length b \<le> length a" if "lex_exp a = Some (t, b)" for a t b
    using that length_dropWhile_le [of is_digit "tl a"] length_dropWhile_le [of is_digit "tl (tl a)"]
    by (auto simp: lex_exp_def Let_def split: list.splits if_splits)
  from 10 obtain ip c2 fp c3 ex where
    "lex_int (if hd (c # cs) = 0x2D then tl (c # cs) else c # cs) = Some (ip, c2)"
    "lex_frac c2 = Some (fp, c3)" "lex_exp c3 = Some (ex, r)"
    by (auto simp: lex_number_def Let_def split: option.splits)
  with int frac exp have "length r < length (c # cs)"
    by (fastforce split: if_splits)
  then show ?case by simp
next
  case (11 c cs x v r)
  then have "r = drop 4 (c # cs) \<or> r = drop 5 (c # cs)"
    by (auto simp: lex_literal_def split: if_splits)
  then show ?case by auto
qed simp_all

subsection \<open>\<^verbatim>\<open>JSON.parse\<close>: values\<close>

text \<open>
  The parser reads the tokens from left to right and keeps the containers that are still
  open on a stack, innermost first: an open array with the elements read so far, an open
  object with its members read so far and the key whose value is being read.
\<close>

datatype frame =
    InArray "json list"
  | InObject "(jstring \<times> json) list" jstring

datatype expect =
    AValue          \<comment> \<open>a value (at the start, after a colon, after a comma in an array)\<close>
  | AValueOrEnd     \<comment> \<open>after \<^verbatim>\<open>[\<close>: a value or \<^verbatim>\<open>]\<close>\<close>
  | AKeyOrEnd       \<comment> \<open>after \<^verbatim>\<open>{\<close>: a key or \<^verbatim>\<open>}\<close>\<close>
  | AKey            \<comment> \<open>after a comma in an object\<close>
  | AColon          \<comment> \<open>after a key\<close>
  | ACommaOrEnd     \<comment> \<open>after a value inside a container\<close>
  | AtEnd json      \<comment> \<open>the text's value is complete\<close>

text \<open>A completed value goes to the innermost open container, or is the result.\<close>

fun complete :: "json \<Rightarrow> frame list \<Rightarrow> frame list \<times> expect" where
  "complete v [] = ([], AtEnd v)"
| "complete v (InArray els # st) = (InArray (els @ [v]) # st, ACommaOrEnd)"
| "complete v (InObject ms k # st) = (InObject (ms @ [(k, v)]) k # st, ACommaOrEnd)"

fun parse_value :: "frame list \<Rightarrow> token \<Rightarrow> (frame list \<times> expect) option" where
  "parse_value st (TString s) = Some (complete (JStr s) st)"
| "parse_value st (TNumber n) = Some (complete (JNum n) st)"
| "parse_value st (TLiteral v) = Some (complete v st)"
| "parse_value st LBracket = Some (InArray [] # st, AValueOrEnd)"
| "parse_value st LBrace = Some (InObject [] [] # st, AKeyOrEnd)"
| "parse_value st _ = None"

fun close_array :: "frame list \<Rightarrow> (frame list \<times> expect) option" where
  "close_array (InArray els # st) = Some (complete (JArr els) st)"
| "close_array _ = None"

fun close_object :: "frame list \<Rightarrow> (frame list \<times> expect) option" where
  "close_object (InObject ms k # st) = Some (complete (JObj ms) st)"
| "close_object _ = None"

fun set_key :: "jstring \<Rightarrow> frame list \<Rightarrow> (frame list \<times> expect) option" where
  "set_key s (InObject ms k # st) = Some (InObject ms s # st, AColon)"
| "set_key s _ = None"

fun after_comma :: "frame list \<Rightarrow> (frame list \<times> expect) option" where
  "after_comma (InArray els # st) = Some (InArray els # st, AValue)"
| "after_comma (InObject ms k # st) = Some (InObject ms k # st, AKey)"
| "after_comma [] = None"

fun parse_step :: "frame list \<Rightarrow> expect \<Rightarrow> token \<Rightarrow> (frame list \<times> expect) option" where
  "parse_step st AValue t = parse_value st t"
| "parse_step st AValueOrEnd RBracket = close_array st"
| "parse_step st AValueOrEnd t = parse_value st t"
| "parse_step st AKeyOrEnd RBrace = close_object st"
| "parse_step st AKeyOrEnd (TString s) = set_key s st"
| "parse_step st AKey (TString s) = set_key s st"
| "parse_step st AColon Colon = Some (st, AValue)"
| "parse_step st ACommaOrEnd Comma = after_comma st"
| "parse_step st ACommaOrEnd RBracket = close_array st"
| "parse_step st ACommaOrEnd RBrace = close_object st"
| "parse_step st _ _ = None"

fun parse_tokens :: "frame list \<Rightarrow> expect \<Rightarrow> token list \<Rightarrow> json option" where
  "parse_tokens st (AtEnd v) [] = Some v"
| "parse_tokens st _ [] = None"
| "parse_tokens st ex (t # ts) =
     (case parse_step st ex t of None \<Rightarrow> None | Some (st', ex') \<Rightarrow> parse_tokens st' ex' ts)"

text \<open>
  \<^verbatim>\<open>JSON.parse(text)\<close>: the value of the text, or \<open>None\<close> where the engine throws a
  \<^verbatim>\<open>SyntaxError\<close>.
\<close>

definition JSON_parse :: "jstring \<Rightarrow> json option" where
  "JSON_parse text = (case lex text of None \<Rightarrow> None | Some ts \<Rightarrow> parse_tokens [] AValue ts)"

subsection \<open>\<^verbatim>\<open>String.prototype.trim\<close> and \<^verbatim>\<open>String.prototype.match\<close>\<close>

text \<open>The white space and line terminator code units that \<^verbatim>\<open>trim\<close> removes.\<close>

definition is_js_space :: "code_unit \<Rightarrow> bool" where
  "is_js_space c \<longleftrightarrow>
     c = 0x09 \<or> c = 0x0A \<or> c = 0x0B \<or> c = 0x0C \<or> c = 0x0D \<or> c = 0x20 \<or> c = 0xA0
     \<or> c = 0x1680 \<or> (0x2000 \<le> c \<and> c \<le> 0x200A) \<or> c = 0x2028 \<or> c = 0x2029
     \<or> c = 0x202F \<or> c = 0x205F \<or> c = 0x3000 \<or> c = 0xFEFF"

definition trim :: "jstring \<Rightarrow> jstring" where
  "trim s = rev (dropWhile is_js_space (rev (dropWhile is_js_space s)))"

text \<open>
  \<^verbatim>\<open>content.match(/\{[\s\S]*\}/)\<close>: the class \<^verbatim>\<open>[\s\S]\<close> accepts every code unit and the
  star is greedy, so the leftmost match runs from the first \<^verbatim>\<open>{\<close> to the last \<^verbatim>\<open>}\<close>
  after it. The result is \<open>None\<close> for \<^verbatim>\<open>null\<close> and the matched text \<^verbatim>\<open>match[0]\<close> otherwise.
\<close>

definition match_braces :: "jstring \<Rightarrow> jstring option" where
  "match_braces content =
     (let from_open = dropWhile (\<lambda>c. c \<noteq> 0x7B) content;
          m = rev (dropWhile (\<lambda>c. c \<noteq> 0x7D) (rev from_open))
      in if m = [] then None else Some m)"

subsection \<open>Conversions of parsed values\<close>

text \<open>
  The exceptions of the handler: the engine's \<^verbatim>\<open>SyntaxError\<close>, \<^verbatim>\<open>TypeError\<close> and
  \<^verbatim>\<open>RangeError\<close> (the call stack is exhausted), and an \<^verbatim>\<open>Error\<close> with its message.
\<close>

datatype exn = SyntaxError | TypeError | RangeError | Error jstring

text \<open>\<^verbatim>\<open>!!v\<close> for a parsed value.\<close>

fun truthy :: "json \<Rightarrow> bool" where
  "truthy JNull = False"
| "truthy (JBool b) = b"
| "truthy (JNum n) = (n \<noteq> Finite 0 \<and> n \<noteq> NaN)"
| "truthy (JStr s) = (s \<noteq> [])"
| "truthy (JArr xs) = True"
| "truthy (JObj ms) = True"

text \<open>
  \<^verbatim>\<open>v.name\<close> for a truthy parsed value and one of the names \<^verbatim>\<open>strengths\<close>, \<^verbatim>\<open>weaknesses\<close>,
  \<^verbatim>\<open>suggestions\<close>, \<^verbatim>\<open>score\<close>, which no built-in prototype defines: the own property of
  an object (the last member with that key), and \<^verbatim>\<open>undefined\<close>, here \<open>None\<close>, otherwise.
\<close>

fun get_property :: "json \<Rightarrow> jstring \<Rightarrow> json option" where
  "get_property (JObj ms) name = map_of (rev ms) name"
| "get_property _ name = None"

definition has_own :: "(jstring \<times> json) list \<Rightarrow> jstring \<Rightarrow> bool" where
  "has_own ms name \<longleftrightarrow> name \<in> set (map fst ms)"

fun join_comma :: "jstring list \<Rightarrow> jstring" where
  "join_comma [] = []"
| "join_comma [s] = s"
| "join_comma (s # ss) = s @ 0x2C # join_comma ss"

text \<open>
  \<^verbatim>\<open>String(v)\<close> (ECMA-262 ToString). An array is joined with commas, \<^verbatim>\<open>null\<close> elements
  giving the empty string. An object goes through OrdinaryToPrimitive: a member of a
  parsed object is never callable, so an own member \<^verbatim>\<open>toString\<close> hides
  \<^verbatim>\<open>Object.prototype.toString\<close>, the inherited \<^verbatim>\<open>valueOf\<close> returns the object itself,
  and the conversion throws a \<^verbatim>\<open>TypeError\<close>; without such a member the result is
  \<^verbatim>\<open>[object Object]\<close>. The conversion of an array inside an array is a nested call: \<open>d\<close>
  is the depth of array nesting that the engine's call stack still admits, and an array
  met at depth 0 ends the conversion with a \<^verbatim>\<open>RangeError\<close>. The elements are converted
  in order, and the first exception ends the conversion. The decimal rendering of a
  number (Number::toString) is a parameter.
\<close>

fun ToString :: "(jsnum \<Rightarrow> jstring) \<Rightarrow> nat \<Rightarrow> json \<Rightarrow> exn + jstring"
  and join_elements :: "(jsnum \<Rightarrow> jstring) \<Rightarrow> nat \<Rightarrow> json list \<Rightarrow> exn + jstring list" where
  "ToString n2s d JNull = Inr (js ''null'')"
| "ToString n2s d (JBool b) = Inr (if b then js ''true'' else js ''false'')"
| "ToString n2s d (JNum n) = Inr (n2s n)"
| "ToString n2s d (JStr s) = Inr s"
| "ToString n2s d (JArr xs) =
     (if d = 0 then Inl RangeError
      else case join_elements n2s (d - 1) xs of Inl e \<Rightarrow> Inl e | Inr ss \<Rightarrow> Inr (join_comma ss))"
| "ToString n2s d (JObj ms) =
     (if has_own ms (js ''toString'') then Inl TypeError else Inr (js ''[object Object]''))"
| "join_elements n2s d [] = Inr []"
| "join_elements n2s d (x # xs) =
     (case (if x = JNull then Inr [] else ToString n2s d x) of
        Inl e \<Rightarrow> Inl e
      | Inr s \<Rightarrow> (case join_elements n2s d xs of Inl e \<Rightarrow> Inl e | Inr ss \<Rightarrow> Inr (s # ss)))"

text \<open>\<^verbatim>\<open>xs.map(String)\<close>: the elements are converted in order, the first exception ends it.\<close>

fun map_String :: "(jsnum \<Rightarrow> jstring) \<Rightarrow> nat \<Rightarrow> json list \<Rightarrow> exn + jstring list" where
  "map_String n2s d [] = Inr []"
| "map_String n2s d (x # xs) =
     (case ToString n2s d x of
        Inl e \<Rightarrow> Inl e
      | Inr s \<Rightarrow> (case map_String n2s d xs of Inl e \<Rightarrow> Inl e | Inr ss \<Rightarrow> Inr (s # ss)))"

text \<open>
  \<^verbatim>\<open>Number(v)\<close> (ECMA-262 ToNumber) for a property that may be \<^verbatim>\<open>undefined\<close>. An array is
  converted through its string; an object throws as in \<open>ToString\<close> or gives the number
  of the text \<^verbatim>\<open>[object Object]\<close>, which is \<^verbatim>\<open>NaN\<close>. The number of a string
  (StringToNumber) is a parameter.
\<close>

fun ToNumber ::
  "(jsnum \<Rightarrow> jstring) \<Rightarrow> (jstring \<Rightarrow> jsnum) \<Rightarrow> nat \<Rightarrow> json option \<Rightarrow> exn + jsnum" where
  "ToNumber n2s s2n d None = Inr NaN"
| "ToNumber n2s s2n d (Some JNull) = Inr (Finite 0)"
| "ToNumber n2s s2n d (Some (JBool b)) = Inr (Finite (if b then 1 else 0))"
| "ToNumber n2s s2n d (Some (JNum n)) = Inr n"
| "ToNumber n2s s2n d (Some (JStr s)) = Inr (s2n s)"
| "ToNumber n2s s2n d (Some (JArr xs)) =
     (case ToString n2s d (JArr xs) of Inl e \<Rightarrow> Inl e | Inr s \<Rightarrow> Inr (s2n s))"
| "ToNumber n2s s2n d (Some (JObj ms)) =
     (if has_own ms (js ''toString'') then Inl TypeError else Inr NaN)"

definition isFinite :: "jsnum \<Rightarrow> bool" where
  "isFinite n = (case n of Finite x \<Rightarrow> True | _ \<Rightarrow> False)"

text \<open>
  \<^verbatim>\<open>Math.round\<close> on a finite number: the nearest integer, a tie going up. The result of
  \<^verbatim>\<open>Math.min(10, Math.max(1, Math.round(x)))\<close> is an integer between 1 and 10, carried as
  an \<open>int\<close>.
\<close>

definition Math_round :: "rat \<Rightarrow> int" where
  "Math_round x = \<lfloor>x + 1 / 2\<rfloor>"

subsection \<open>The request, its environment and its outcome\<close>

text \<open>
  An uploaded \<^verbatim>\<open>File\<close>: the declared MIME type \<^verbatim>\<open>file.type\<close> and the bytes of
  \<^verbatim>\<open>file.arrayBuffer()\<close>.
\<close>

record File =
  ftype :: jstring
  fbytes :: "8 word list"

text \<open>
  The form data of the request: the fields \<^verbatim>\<open>text\<close> and \<^verbatim>\<open>file\<close>, each \<^verbatim>\<open>null\<close> (\<open>None\<close>)
  when absent. \<open>NotFormData\<close> is a request whose body \<^verbatim>\<open>req.formData()\<close> rejects.
\<close>

datatype request = NotFormData | FormData "jstring option" "File option"

text \<open>
  What a call of \<^verbatim>\<open>openai.chat.completions.create\<close> does: it throws an error with a
  message (the call fails or times out, after whatever requests the client library sends
  for it), or it returns a completion, whose \<^verbatim>\<open>choices?.[0]?.message?.content\<close> is a
  string or is absent (\<open>None\<close>).
\<close>

datatype completion = Rejected jstring | Completed "jstring option"

text \<open>
  Everything the handler takes from outside the route: the environment variable
  \<^verbatim>\<open>OPENAI_API_KEY\<close>, the decoders of the packages \<^verbatim>\<open>pdf-parse\<close> and \<^verbatim>\<open>mammoth\<close> (\<open>None\<close>
  when they throw) and of \<^verbatim>\<open>Buffer.toString('utf-8')\<close>, the call of
  \<^verbatim>\<open>openai.chat.completions.create\<close> as a function of the user prompt, the engine's two
  conversions between numbers and strings, and the depth of array nesting that the
  engine's call stack admits where the handler calls \<^verbatim>\<open>String\<close> and where it calls
  \<^verbatim>\<open>Number\<close>.
\<close>

record env =
  OPENAI_API_KEY :: "jstring option"
  pdf :: "8 word list \<Rightarrow> jstring option"
  mammoth_extractRawText :: "8 word list \<Rightarrow> jstring option"
  utf8_toString :: "8 word list \<Rightarrow> jstring"
  chat_completions_create :: "jstring \<Rightarrow> completion"
  NumberToString :: "jsnum \<Rightarrow> jstring"
  StringToNumber :: "jstring \<Rightarrow> jsnum"
  String_call_depth :: nat
  Number_call_depth :: nat

record review =
  strengths :: "jstring list"
  weaknesses :: "jstring list"
  suggestions :: "jstring list"
  score :: int

text \<open>
  The JSON body of the response: \<^verbatim>\<open>{ error }\<close> with a text of the source or the message
  of an \<^verbatim>\<open>Error\<close>, \<^verbatim>\<open>{ error }\<close> with the engine's message of one of its own exceptions, or
  the review.
\<close>

datatype body = ErrorBody jstring | EngineErrorBody exn | ReviewBody review

text \<open>
  The outcome of a request: the status and the body of the HTTP response, and the user
  prompts of the calls of \<^verbatim>\<open>openai.chat.completions.create\<close> that the handler made. The
  list is empty when the handler made no call; it does not count the HTTP requests that
  the client library sends for one call.
\<close>

record outcome =
  status :: nat
  body :: body
  model_calls :: "jstring list"

subsection \<open>\<^verbatim>\<open>extractTextFromPdf\<close>, \<^verbatim>\<open>extractTextFromDocx\<close>, \<^verbatim>\<open>processFile\<close>\<close>

text \<open>The result is the extracted text, or on the left the message of the thrown \<^verbatim>\<open>Error\<close>.\<close>

definition extractTextFromPdf :: "env \<Rightarrow> 8 word list \<Rightarrow> jstring + jstring" where
  "extractTextFromPdf env buffer =
     (case pdf env buffer of
        Some t \<Rightarrow> Inr t
      | None \<Rightarrow> Inl (js ''Failed to extract text from PDF''))"

definition extractTextFromDocx :: "env \<Rightarrow> 8 word list \<Rightarrow> jstring + jstring" where
  "extractTextFromDocx env buffer =
     (case mammoth_extractRawText env buffer of
        Some t \<Rightarrow> Inr t
      | None \<Rightarrow> Inl (js ''Failed to extract text from DOCX''))"

definition processFile :: "env \<Rightarrow> File \<Rightarrow> jstring + jstring" where
  "processFile env f =
     (if ftype f = js ''application/pdf'' then extractTextFromPdf env (fbytes f)
      else if ftype f = js ''application/vnd.openxmlformats-officedocument.wordprocessingml.document''
        then extractTextFromDocx env (fbytes f)
      else if ftype f = js ''text/plain'' then Inr (utf8_toString env (fbytes f))
      else Inl (js ''Unsupported file type. Please upload a PDF, DOCX, or text file.''))"

subsection \<open>\<^verbatim>\<open>buildPrompt\<close>\<close>

definition prompt_head :: jstring where
  "prompt_head =
     js ''You are an expert career coach and recruiter. Analyze the following CV/resume content and produce a structured review.''
     @ [0x0A, 0x0A]
     @ js ''    Return strictly a JSON object with the following keys:'' @ [0x0A]
     @ js ''    - strengths: string[] (3-7 concise bullet points)'' @ [0x0A]
     @ js ''    - weaknesses: string[] (3-7 concise bullet points)'' @ [0x0A]
     @ js ''    - suggestions: string[] (actionable improvements, 3-7 items)'' @ [0x0A]
     @ js ''    - score: number (integer from 1 to 10)'' @ [0x0A, 0x0A]
     @ js ''    CV:'' @ [0x0A]
     @ js ''    '' @ [0x22, 0x22, 0x22]"

definition buildPrompt :: "jstring \<Rightarrow> jstring" where
  "buildPrompt cv = prompt_head @ cv @ [0x22, 0x22, 0x22]"

subsection \<open>The sanitizer (lines 1124 to 1134)\<close>

definition sanitizeArray :: "env \<Rightarrow> json option \<Rightarrow> exn + jstring list" where
  "sanitizeArray env x =
     (case x of
        Some (JArr xs) \<Rightarrow>
          (case map_String (NumberToString env) (String_call_depth env) xs of
             Inl e \<Rightarrow> Inl e
           | Inr ss \<Rightarrow> Inr (filter (\<lambda>s. s \<noteq> []) ss))
      | _ \<Rightarrow> Inr [])"

text \<open>
  \<^verbatim>\<open>Number.isFinite(scoreNum) ? Math.min(10, Math.max(1, Math.round(scoreNum))) : 0\<close>.
\<close>

definition sanitizeScore :: "jsnum \<Rightarrow> int" where
  "sanitizeScore scoreNum =
     (case scoreNum of Finite x \<Rightarrow> min 10 (max 1 (Math_round x)) | _ \<Rightarrow> 0)"

text \<open>
  The construction of \<^verbatim>\<open>result\<close> from the parsed value: \<^verbatim>\<open>scoreNum\<close> first, then the three
  lists in the order of the object literal. The first exception ends it.
\<close>

definition sanitize :: "env \<Rightarrow> json \<Rightarrow> exn + review" where
  "sanitize env parsed =
     (case ToNumber (NumberToString env) (StringToNumber env) (Number_call_depth env)
             (get_property parsed (js ''score'')) of
        Inl e \<Rightarrow> Inl e
      | Inr scoreNum \<Rightarrow>
     (case sanitizeArray env (get_property parsed (js ''strengths'')) of
        Inl e \<Rightarrow> Inl e
      | Inr s \<Rightarrow>
     (case sanitizeArray env (get_property parsed (js ''weaknesses'')) of
        Inl e \<Rightarrow> Inl e
      | Inr w \<Rightarrow>
     (case sanitizeArray env (get_property parsed (js ''suggestions'')) of
        Inl e \<Rightarrow> Inl e
      | Inr g \<Rightarrow>
          Inr \<lparr>strengths = take 10 s, weaknesses = take 10 w, suggestions = take 10 g,
               score = sanitizeScore scoreNum\<rparr>))))"

subsection \<open>\<^verbatim>\<open>POST\<close>\<close>

text \<open>
  The outer \<^verbatim>\<open>catch\<close> (lines 1137 to 1143): status 500 with
  \<^verbatim>\<open>err.message || 'Unexpected server error'\<close>.
\<close>

fun uncaught :: "exn \<Rightarrow> nat \<times> body" where
  "uncaught (Error m) = (500, ErrorBody (if m = [] then js ''Unexpected server error'' else m))"
| "uncaught e = (500, EngineErrorBody e)"

text \<open>
  Lines 1107 to 1115: \<^verbatim>\<open>parsed\<close> after the two parse attempts, \<open>None\<close> for \<^verbatim>\<open>null\<close>. The
  second \<^verbatim>\<open>JSON.parse\<close> stands in the \<^verbatim>\<open>catch\<close> block of the first, outside any inner
  \<^verbatim>\<open>try\<close>: its \<^verbatim>\<open>SyntaxError\<close> leaves the block.
\<close>

definition parse_content :: "jstring \<Rightarrow> exn + json option" where
  "parse_content content =
     (case JSON_parse content of
        Some v \<Rightarrow> Inr (Some v)
      | None \<Rightarrow>
          (case match_braces content of
             None \<Rightarrow> Inr None
           | Some m \<Rightarrow>
               (case JSON_parse m of Some v \<Rightarrow> Inr (Some v) | None \<Rightarrow> Inl SyntaxError)))"

text \<open>Lines 1106 to 1136 for the text \<^verbatim>\<open>content\<close>, with the outer \<^verbatim>\<open>catch\<close>.\<close>

definition respond :: "env \<Rightarrow> jstring \<Rightarrow> nat \<times> body" where
  "respond env content =
     (case parse_content content of
        Inl e \<Rightarrow> uncaught e
      | Inr parsed \<Rightarrow>
          (case parsed of
             None \<Rightarrow> (502, ErrorBody (js ''Failed to parse model response''))
           | Some v \<Rightarrow>
               if \<not> truthy v then (502, ErrorBody (js ''Failed to parse model response''))
               else (case sanitize env v of
                       Inl e \<Rightarrow> uncaught e
                     | Inr result \<Rightarrow> (200, ReviewBody result))))"

text \<open>\<^verbatim>\<open>!text\<close> and \<^verbatim>\<open>text || ''\<close> for the form field, \<^verbatim>\<open>!process.env.OPENAI_API_KEY\<close>.\<close>

definition falsy_string :: "jstring option \<Rightarrow> bool" where
  "falsy_string t \<longleftrightarrow> t = None \<or> t = Some []"

definition or_empty :: "jstring option \<Rightarrow> jstring" where
  "or_empty t = (case t of None \<Rightarrow> [] | Some s \<Rightarrow> s)"

text \<open>Lines 1066 to 1077: \<^verbatim>\<open>cvText\<close>, or on the left the message of the file error.\<close>

definition cvText :: "env \<Rightarrow> jstring option \<Rightarrow> File option \<Rightarrow> jstring + jstring" where
  "cvText env text file =
     (case file of None \<Rightarrow> Inr (or_empty text) | Some f \<Rightarrow> processFile env f)"

definition reply :: "nat \<times> body \<Rightarrow> jstring list \<Rightarrow> outcome" where
  "reply r calls = \<lparr>status = fst r, body = snd r, model_calls = calls\<rparr>"

definition POST :: "env \<Rightarrow> request \<Rightarrow> outcome" where
  "POST env req =
     (case req of
        NotFormData \<Rightarrow> reply (uncaught TypeError) []
      | FormData text file \<Rightarrow>
          if falsy_string text \<and> file = None then
            reply (400, ErrorBody (js ''Either text or file must be provided'')) []
          else if falsy_string (OPENAI_API_KEY env) then
            reply (500, ErrorBody (js ''OPENAI_API_KEY is not set on server'')) []
          else
            (case cvText env text file of
               Inl message \<Rightarrow>
                 reply (400, ErrorBody (if message = [] then js ''Error processing file''
                                        else message)) []
             | Inr cv \<Rightarrow>
                 if trim cv = [] then
                   reply (400, ErrorBody (js ''No text content found to analyze'')) []
                 else
                   (case chat_completions_create env (buildPrompt cv) of
                      Rejected message \<Rightarrow> reply (uncaught (Error message)) [buildPrompt cv]
                    | Completed content \<Rightarrow>
                        reply (respond env (case content of None \<Rightarrow> js ''{}'' | Some c \<Rightarrow> c))
                          [buildPrompt cv])))"

subsection \<open>Notions of the claims\<close>

text \<open>A parsed value that is a JSON object.\<close>

fun is_object :: "json \<Rightarrow> bool" where
  "is_object (JObj ms) = True"
| "is_object _ = False"

text \<open>The fully degraded review: three empty lists and the score 0.\<close>

definition degraded_review :: review where
  "degraded_review = \<lparr>strengths = [], weaknesses = [], suggestions = [], score = 0\<rparr>"

text \<open>
  A declared MIME type that \<^verbatim>\<open>processFile\<close> does not dispatch on, and a PDF or DOCX file
  whose decoder throws.
\<close>

definition unsupported_type :: "File \<Rightarrow> bool" where
  "unsupported_type f \<longleftrightarrow>
     ftype f \<noteq> js ''application/pdf''
     \<and> ftype f \<noteq> js ''application/vnd.openxmlformats-officedocument.wordprocessingml.document''
     \<and> ftype f \<noteq> js ''text/plain''"

definition extraction_fails :: "env \<Rightarrow> File \<Rightarrow> bool" where
  "extraction_fails env f \<longleftrightarrow>
     (ftype f = js ''application/pdf'' \<and> pdf env (fbytes f) = None)
     \<or> (ftype f = js ''application/vnd.openxmlformats-officedocument.wordprocessingml.document''
         \<and> mammoth_extractRawText env (fbytes f) = None)"

text \<open>
  A value whose conversion by \<^verbatim>\<open>String\<close> returns at the depth \<open>d\<close>: neither the value nor,
  through arrays, one of its elements is an object with an own member \<^verbatim>\<open>toString\<close>, and
  its arrays are nested no deeper than \<open>d\<close>. A list field and a score field whose
  conversions return.
\<close>

fun converts :: "nat \<Rightarrow> json \<Rightarrow> bool" where
  "converts d (JArr xs) = (d \<noteq> 0 \<and> (\<forall>x\<in>set xs. converts (d - 1) x))"
| "converts d (JObj ms) = (\<not> has_own ms (js ''toString''))"
| "converts d v = True"

definition field_converts :: "nat \<Rightarrow> json option \<Rightarrow> bool" where
  "field_converts d x =
     (case x of Some (JArr xs) \<Rightarrow> (\<forall>v\<in>set xs. converts d v) | _ \<Rightarrow> True)"

definition number_converts :: "nat \<Rightarrow> json option \<Rightarrow> bool" where
  "number_converts d x = (case x of Some v \<Rightarrow> converts d v | None \<Rightarrow> True)"

text \<open>The arrays \<^verbatim>\<open>[]\<close>, \<^verbatim>\<open>[[]]\<close>, \<^verbatim>\<open>[[[]]]\<close> and so on.\<close>

fun nested :: "nat \<Rightarrow> json" where
  "nested 0 = JArr []"
| "nested (Suc k) = JArr [nested k]"

subsection \<open>A test double of the environment\<close>

text \<open>
  The environment of the concrete runs below: a given API key and a chat completion
  service that gives the same answer to every prompt. Its PDF and DOCX decoders reject
  every buffer and its byte decoder reads ASCII text; its call stack admits arrays nested
  1000 deep; the two number conversions are placeholders, and no run below reaches them.
\<close>

definition stub_env :: "jstring option \<Rightarrow> completion \<Rightarrow> env" where
  "stub_env key answer =
     \<lparr>OPENAI_API_KEY = key,
      pdf = (\<lambda>buffer. None),
      mammoth_extractRawText = (\<lambda>buffer. None),
      utf8_toString = map ucast,
      chat_completions_create = (\<lambda>prompt. answer),
      NumberToString = (\<lambda>n. js ''NaN''),
      StringToNumber = (\<lambda>s. NaN),
      String_call_depth = 1000,
      Number_call_depth = 1000\<rparr>"

definition png_file :: File where
  "png_file = \<lparr>ftype = js ''image/png'', fbytes = [0x89, 0x50, 0x4E, 0x47]\<rparr>"

definition txt_file :: File where
  "txt_file = \<lparr>ftype = js ''text/plain'', fbytes = [0x4A, 0x61, 0x6E, 0x65]\<rparr>"

definition pdf_file :: File where
  "pdf_file = \<lparr>ftype = js ''application/pdf'', fbytes = [0x25, 0x50, 0x44, 0x46]\<rparr>"

text \<open>A well-formed review object, and the answer with wrapping prose of the specification.\<close>

definition sample_review_json :: json where
  "sample_review_json =
     JObj [(js ''strengths'', JArr [JStr (js ''Clear'')]),
           (js ''weaknesses'', JArr [JStr (js ''No metrics'')]),
           (js ''suggestions'', JArr [JStr (js ''Add numbers''), JStr (js ''Shorten'')]),
           (js ''score'', JNum (Finite 7))]"

definition wrapped_answer :: jstring where
  "wrapped_answer =
     js ''Here is the result:'' @ [0x0A]
     @ js ''{\"strengths\":[\"a\"],\"weaknesses\":[],\"suggestions\":[\"b\",\"b\",\"\"],\"score\":15}''"

section \<open>Properties\<close>

subsection \<open>The binary64 value of an integer\<close>

text \<open>Integers below \<open>2 ^ 53\<close> in absolute value are binary64 values: rounding keeps them.\<close>

lemma round_ties_even_int: "round_ties_even (of_int m) = m"
  by (simp add: round_ties_even_def)

lemma number_value_int:
  assumes "\<bar>n\<bar> < 2 ^ 53"
  shows "number_value (of_int n) = Finite (of_int n)"
proof (cases "n = 0")
  case True
  then show ?thesis by (simp add: number_value_def)
next
  case False
  define k where "k = floorlog 2 (nat \<bar>n\<bar>)"
  have pos: "0 < nat \<bar>n\<bar>" using False by simp
  have "nat \<bar>n\<bar> < 2 ^ 53" using assms by (simp add: nat_less_iff)
  then have k_le: "k \<le> 53"
    unfolding k_def by (intro floorlog_leI) simp_all
  have "k \<noteq> 0"
    unfolding k_def using pos by (simp add: floorlog_eq_zero_iff)
  then have k_pos: "0 < k" by simp
  have a: "\<bar>of_int n :: rat\<bar> = of_int \<bar>n\<bar>" by simp
  have one: "(1::rat) \<le> of_int \<bar>n\<bar>"
  proof -
    from False have "1 \<le> \<bar>n\<bar>" by simp
    then have "(of_int 1 :: rat) \<le> of_int \<bar>n\<bar>" by (simp only: of_int_le_iff)
    then show ?thesis by simp
  qed
  have e: "floor_log2 (of_int \<bar>n\<bar>) = int k - 1"
    using one by (simp add: floor_log2_def k_def del: of_int_abs)
  have emax: "max (int k - 1) (- 1022) = int k - 1"
    using k_pos by simp
  have ulp: "(2::rat) powi (int k - 1 - 52) = 1 / 2 ^ (53 - k)"
  proof -
    have "int k - 1 - 52 = - int (53 - k)"
      using k_le by (simp add: of_nat_diff)
    then show ?thesis
      by (simp only: power_int_minus power_int_of_nat inverse_eq_divide)
  qed
  have quot: "(of_int \<bar>n\<bar> :: rat) / (1 / 2 ^ (53 - k)) = of_int (\<bar>n\<bar> * 2 ^ (53 - k))"
    by (simp del: of_int_abs)
  have small: "\<not> (2 ^ 1024 \<le> (of_int \<bar>n\<bar> :: rat))"
  proof -
    have "(of_int \<bar>n\<bar> :: rat) < of_int (2 ^ 53)" using assms by (simp only: of_int_less_iff)
    also have "\<dots> < 2 ^ 1024" by simp
    finally show ?thesis by simp
  qed
  have r: "of_int (round_ties_even ((of_int \<bar>n\<bar> :: rat) / (1 / 2 ^ (53 - k)))) * (1 / 2 ^ (53 - k))
             = (of_int \<bar>n\<bar> :: rat)"
    unfolding quot round_ties_even_int by (simp del: of_int_abs)
  have nz: "(of_int n :: rat) \<noteq> 0" using False by simp
  have sign: "(if 0 < (of_int n :: rat) then of_int \<bar>n\<bar> else - of_int \<bar>n\<bar>) = (of_int n :: rat)"
    using False by (simp add: abs_if del: of_int_abs)
  have "number_value (of_int n) =
          (if 2 ^ 1024 \<le> (of_int \<bar>n\<bar> :: rat)
           then (if 0 < (of_int n :: rat) then PosInfinity else NegInfinity)
           else Finite (if 0 < (of_int n :: rat) then of_int \<bar>n\<bar> else - of_int \<bar>n\<bar>))"
    by (simp only: number_value_def nz if_False Let_def a e emax ulp r)
  with small sign show ?thesis
    by (simp only: if_False)
qed

subsection \<open>Evaluation of the literals\<close>

lemma stub_env_simps:
  "OPENAI_API_KEY (stub_env key answer) = key"
  "pdf (stub_env key answer) = (\<lambda>buffer. None)"
  "mammoth_extractRawText (stub_env key answer) = (\<lambda>buffer. None)"
  "utf8_toString (stub_env key answer) = map ucast"
  "chat_completions_create (stub_env key answer) = (\<lambda>prompt. answer)"
  by (simp_all add: stub_env_def)

lemma processFile_png: "processFile env png_file = Inl (js ''Unsupported file type. Please upload a PDF, DOCX, or text file.'')"
  by (simp add: processFile_def png_file_def js_def)

lemma processFile_txt: "processFile (stub_env key answer) txt_file = Inr (js ''Jane'')"
  by (simp add: processFile_def txt_file_def js_def stub_env_simps)

lemma trim_Jane: "trim (js ''Jane'') = js ''Jane''"
  by (simp add: trim_def js_def is_js_space_def)

subsection \<open>The prompt\<close>

text \<open>
  C8. \<^verbatim>\<open>buildPrompt\<close> is a total function of the CV text alone: the prompt is the text
  between a fixed head and a fixed tail, so equal texts give equal prompts and the text
  occurs verbatim in its prompt.
\<close>

theorem buildPrompt_embeds_cv:
  "(\<exists>head tail. \<forall>cv. buildPrompt cv = head @ cv @ tail) \<and> (\<forall>cv. sublist cv (buildPrompt cv))"
proof
  show "\<exists>head tail. \<forall>cv. buildPrompt cv = head @ cv @ tail"
    unfolding buildPrompt_def by blast
  show "\<forall>cv. sublist cv (buildPrompt cv)"
    unfolding buildPrompt_def sublist_def by blast
qed

subsection \<open>The order of the checks\<close>

text \<open>
  C10. The credentials check precedes the normalization of the input: a request that
  carries some text or a file is answered with status 500 when no API key is configured,
  whatever the file is, and the model is not called.
\<close>

theorem credentials_checked_first:
  assumes "\<not> falsy_string text \<or> file \<noteq> None"
    and "falsy_string (OPENAI_API_KEY env)"
  shows "POST env (FormData text file) =
           \<lparr>status = 500, body = ErrorBody (js ''OPENAI_API_KEY is not set on server''),
            model_calls = []\<rparr>"
  using assms by (auto simp: POST_def reply_def)

theorem credentials_checked_first_witness:
  "Some png_file \<noteq> None
   \<and> falsy_string (OPENAI_API_KEY (stub_env None (Completed None)))
   \<and> status (POST (stub_env None (Completed None)) (FormData None (Some png_file))) = 500"
  using credentials_checked_first [of None "Some png_file" "stub_env None (Completed None)"]
  by (simp add: falsy_string_def stub_env_simps)

subsection \<open>File and text\<close>

text \<open>
  C6. When a file is uploaded the text field has no influence on the outcome: the
  request is answered as if no text had been sent. With an API key configured, the text
  whose emptiness is checked and that is put into the prompt is the text extracted from
  the file.
\<close>

theorem file_takes_precedence:
  "POST env (FormData text (Some f)) = POST env (FormData None (Some f))
   \<and> (\<not> falsy_string (OPENAI_API_KEY env) \<and> processFile env f = Inr extracted \<longrightarrow>
        (if trim extracted = []
         then status (POST env (FormData text (Some f))) = 400
              \<and> model_calls (POST env (FormData text (Some f))) = []
         else model_calls (POST env (FormData text (Some f))) = [buildPrompt extracted]))"
  by (auto simp: POST_def cvText_def reply_def split: completion.splits)

theorem file_takes_precedence_witness:
  "\<not> falsy_string (OPENAI_API_KEY (stub_env (Some (js ''sk-test'')) (Completed None)))
   \<and> processFile (stub_env (Some (js ''sk-test'')) (Completed None)) txt_file = Inr (js ''Jane'')
   \<and> trim (js ''Jane'') \<noteq> []
   \<and> model_calls (POST (stub_env (Some (js ''sk-test'')) (Completed None))
        (FormData (Some (js ''John'')) (Some txt_file))) = [buildPrompt (js ''Jane'')]"
proof -
  let ?env = "stub_env (Some (js ''sk-test'')) (Completed None)"
  have key: "\<not> falsy_string (OPENAI_API_KEY ?env)"
    by (simp add: stub_env_simps falsy_string_def js_def)
  have extracted: "processFile ?env txt_file = Inr (js ''Jane'')"
    by (rule processFile_txt)
  have nonempty: "trim (js ''Jane'') \<noteq> []"
    by (simp add: trim_Jane) (simp add: js_def)
  from file_takes_precedence [of ?env "Some (js ''John'')" txt_file "js ''Jane''"]
  have "\<not> falsy_string (OPENAI_API_KEY ?env) \<and> processFile ?env txt_file = Inr (js ''Jane'') \<longrightarrow>
        (if trim (js ''Jane'') = []
         then status (POST ?env (FormData (Some (js ''John'')) (Some txt_file))) = 400
              \<and> model_calls (POST ?env (FormData (Some (js ''John'')) (Some txt_file))) = []
         else model_calls (POST ?env (FormData (Some (js ''John'')) (Some txt_file)))
              = [buildPrompt (js ''Jane'')])"
    by (rule conjunct2)
  with key extracted nonempty
  have "model_calls (POST ?env (FormData (Some (js ''John'')) (Some txt_file)))
          = [buildPrompt (js ''Jane'')]"
    by (simp only: simp_thms if_False)
  with key extracted nonempty show ?thesis
    by (simp only: simp_thms)
qed

subsection \<open>Reaching the model, and the answer to a parsed value\<close>

lemma POST_reaches_model:
  assumes "\<not> falsy_string (OPENAI_API_KEY env)"
    and "cvText env text file = Inr cv"
    and "trim cv \<noteq> []"
  shows "POST env (FormData text file) =
           reply (case chat_completions_create env (buildPrompt cv) of
                    Rejected message \<Rightarrow> uncaught (Error message)
                  | Completed content \<Rightarrow>
                      respond env (case content of None \<Rightarrow> js ''{}'' | Some c \<Rightarrow> c))
             [buildPrompt cv]"
proof -
  have "\<not> (falsy_string text \<and> file = None)"
  proof
    assume "falsy_string text \<and> file = None"
    with assms(2) have "cv = []"
      by (auto simp: cvText_def or_empty_def falsy_string_def)
    with assms(3) show False by (simp add: trim_def)
  qed
  with assms show ?thesis
    by (auto simp: POST_def split: completion.splits)
qed

lemma get_property_non_object: "\<not> is_object v \<Longrightarrow> get_property v name = None"
  by (cases v) simp_all

lemma sanitize_without_properties:
  assumes "\<And>name. get_property v name = None"
  shows "sanitize env v = Inr degraded_review"
  by (simp add: sanitize_def assms sanitizeArray_def sanitizeScore_def degraded_review_def)

lemma respond_parsed:
  assumes "JSON_parse content = Some v" and "truthy v"
  shows "respond env content =
           (case sanitize env v of Inl e \<Rightarrow> uncaught e | Inr result \<Rightarrow> (200, ReviewBody result))"
  using assms by (simp add: respond_def parse_content_def)

lemma parse_empty_object: "JSON_parse (js ''{}'') = Some (JObj [])"
  by code_simp

lemma parse_3: "JSON_parse (js ''3'') = Some (JNum (Finite 3))"
  by code_simp

lemma parse_true: "JSON_parse (js ''true'') = Some (JBool True)"
  by code_simp

lemma respond_empty_object: "respond env (js ''{}'') = (200, ReviewBody degraded_review)"
  by (simp add: respond_parsed [OF parse_empty_object] sanitize_without_properties)

lemma cvText_Jane: "cvText env (Some (js ''Jane'')) None = Inr (js ''Jane'')"
  by (simp add: cvText_def or_empty_def)

lemma trim_Jane_nonempty: "trim (js ''Jane'') \<noteq> []"
  by (simp add: trim_Jane) (simp add: js_def)

lemma key_configured: "\<not> falsy_string (OPENAI_API_KEY (stub_env (Some (js ''sk-test'')) answer))"
  by (simp add: stub_env_simps falsy_string_def js_def)


text \<open>
  C9. When the content of the completion parses as a truthy value that is not an object
  (a number other than zero, \<^verbatim>\<open>true\<close>, a non-empty string, an array), the request is not
  rejected as a parse failure: the value has none of the four properties, and the
  response is status 200 with the fully degraded review.
\<close>

theorem truthy_non_object_is_degraded:
  assumes "\<not> falsy_string (OPENAI_API_KEY env)"
    and "cvText env text file = Inr cv"
    and "trim cv \<noteq> []"
    and "chat_completions_create env (buildPrompt cv) = Completed (Some content)"
    and "JSON_parse content = Some v"
    and "truthy v"
    and "\<not> is_object v"
  shows "POST env (FormData text file) =
           \<lparr>status = 200, body = ReviewBody degraded_review, model_calls = [buildPrompt cv]\<rparr>"
proof -
  from assms(7) have "sanitize env v = Inr degraded_review"
    by (intro sanitize_without_properties get_property_non_object)
  with assms(5,6) have "respond env content = (200, ReviewBody degraded_review)"
    by (simp add: respond_parsed)
  with assms(4) POST_reaches_model [OF assms(1-3)] show ?thesis
    by (simp add: reply_def)
qed

theorem truthy_non_object_is_degraded_witness:
  "JSON_parse (js ''3'') = Some (JNum (Finite 3))
   \<and> truthy (JNum (Finite 3)) \<and> \<not> is_object (JNum (Finite 3))
   \<and> POST (stub_env (Some (js ''sk-test'')) (Completed (Some (js ''3''))))
        (FormData (Some (js ''Jane'')) None) =
       \<lparr>status = 200, body = ReviewBody degraded_review, model_calls = [buildPrompt (js ''Jane'')]\<rparr>
   \<and> JSON_parse (js ''true'') = Some (JBool True)
   \<and> truthy (JBool True) \<and> \<not> is_object (JBool True)
   \<and> POST (stub_env (Some (js ''sk-test'')) (Completed (Some (js ''true''))))
        (FormData (Some (js ''Jane'')) None) =
       \<lparr>status = 200, body = ReviewBody degraded_review, model_calls = [buildPrompt (js ''Jane'')]\<rparr>"
  using truthy_non_object_is_degraded [OF key_configured cvText_Jane trim_Jane_nonempty _ parse_3,
      of "Completed (Some (js ''3''))"]
    truthy_non_object_is_degraded [OF key_configured cvText_Jane trim_Jane_nonempty _ parse_true,
      of "Completed (Some (js ''true''))"]
  by (simp add: stub_env_simps parse_3 parse_true)


subsection \<open>Failures of the model call\<close>

text \<open>
  C2, as the code has it. For a request that reaches the model: when the call throws (an
  error or a timeout of the service), the response is status 500 with the message of the
  error, or with the text \<^verbatim>\<open>Unexpected server error\<close> when that message is empty. When the
  completion has no content, the handler continues with the text \<^verbatim>\<open>{}\<close> (line 1106) and
  the response is status 200 with the fully degraded review.
\<close>

theorem upstream_failure_and_missing_content:
  assumes "\<not> falsy_string (OPENAI_API_KEY env)"
    and "cvText env text file = Inr cv"
    and "trim cv \<noteq> []"
  shows "(\<forall>message. chat_completions_create env (buildPrompt cv) = Rejected message \<longrightarrow>
            status (POST env (FormData text file)) = 500
            \<and> body (POST env (FormData text file)) =
                ErrorBody (if message = [] then js ''Unexpected server error'' else message))
         \<and> (chat_completions_create env (buildPrompt cv) = Completed None \<longrightarrow>
            status (POST env (FormData text file)) = 200
            \<and> body (POST env (FormData text file)) = ReviewBody degraded_review)"
  using POST_reaches_model [OF assms]
  by (auto simp: reply_def respond_empty_object)

theorem upstream_failure_and_missing_content_witness:
  "chat_completions_create (stub_env (Some (js ''sk-test'')) (Rejected (js ''Request timed out.'')))
       (buildPrompt (js ''Jane'')) = Rejected (js ''Request timed out.'')
   \<and> status (POST (stub_env (Some (js ''sk-test'')) (Rejected (js ''Request timed out.'')))
        (FormData (Some (js ''Jane'')) None)) = 500
   \<and> body (POST (stub_env (Some (js ''sk-test'')) (Rejected (js ''Request timed out.'')))
        (FormData (Some (js ''Jane'')) None)) = ErrorBody (js ''Request timed out.'')
   \<and> chat_completions_create (stub_env (Some (js ''sk-test'')) (Completed None))
       (buildPrompt (js ''Jane'')) = Completed None
   \<and> status (POST (stub_env (Some (js ''sk-test'')) (Completed None))
        (FormData (Some (js ''Jane'')) None)) = 200
   \<and> body (POST (stub_env (Some (js ''sk-test'')) (Completed None))
        (FormData (Some (js ''Jane'')) None)) = ReviewBody degraded_review"
  using upstream_failure_and_missing_content [OF key_configured cvText_Jane trim_Jane_nonempty,
      of "Rejected (js ''Request timed out.'')"]
    upstream_failure_and_missing_content [OF key_configured cvText_Jane trim_Jane_nonempty,
      of "Completed None"]
  by (simp add: stub_env_simps) (simp add: js_def)

text \<open>
  C2 as stated fails: a completion without content is answered with status 200.
\<close>

theorem missing_content_counterexample:
  "chat_completions_create (stub_env (Some (js ''sk-test'')) (Completed None))
       (buildPrompt (js ''Jane'')) = Completed None
   \<and> status (POST (stub_env (Some (js ''sk-test'')) (Completed None))
        (FormData (Some (js ''Jane'')) None)) = 200
   \<and> body (POST (stub_env (Some (js ''sk-test'')) (Completed None))
        (FormData (Some (js ''Jane'')) None)) = ReviewBody degraded_review"
  by (simp add: POST_reaches_model [OF key_configured cvText_Jane trim_Jane_nonempty]
      stub_env_simps reply_def respond_empty_object)


subsection \<open>Input errors\<close>

lemma processFile_Inl_iff:
  "(\<exists>message. processFile env f = Inl message) \<longleftrightarrow> unsupported_type f \<or> extraction_fails env f"
  by (auto simp: processFile_def unsupported_type_def extraction_fails_def
      extractTextFromPdf_def extractTextFromDocx_def js_def split: option.splits)

lemma png_unsupported: "unsupported_type png_file"
  by (simp add: unsupported_type_def png_file_def js_def)

lemma pdf_fails: "extraction_fails (stub_env key answer) pdf_file"
  by (simp add: extraction_fails_def pdf_file_def stub_env_simps)

lemma trim_blank: "trim (js ''   '') = []"
  by (simp add: trim_def js_def is_js_space_def)

text \<open>
  A request whose body \<^verbatim>\<open>req.formData()\<close> rejects has no form fields at all: the exception
  of line 1046 reaches the outer \<^verbatim>\<open>catch\<close>.
\<close>

lemma POST_not_form_data:
  "POST env NotFormData = \<lparr>status = 500, body = EngineErrorBody TypeError, model_calls = []\<rparr>"
  by (simp add: POST_def reply_def)

text \<open>
  C5, as the code has it, for a request whose body is form data. With neither text nor
  file, with a file of an unsupported declared type, with a file whose extraction fails,
  or with content that is empty after trimming, the handler makes no call of the model.
  The status is 400 when neither text nor file was sent or when an API key is
  configured; without a key the other three cases stop at the credentials check with
  status 500.
\<close>

theorem input_errors_rejected:
  assumes "(falsy_string text \<and> file = None)
           \<or> (\<exists>f. file = Some f \<and> (unsupported_type f \<or> extraction_fails env f))
           \<or> (\<exists>cv. cvText env text file = Inr cv \<and> trim cv = [])"
  shows "model_calls (POST env (FormData text file)) = []
         \<and> status (POST env (FormData text file)) =
             (if (falsy_string text \<and> file = None) \<or> \<not> falsy_string (OPENAI_API_KEY env)
              then 400 else 500)"
proof -
  consider (none) "falsy_string text \<and> file = None"
    | (bad) f message where "file = Some f" "processFile env f = Inl message"
    | (empty) cv where "cvText env text file = Inr cv" "trim cv = []"
    using assms processFile_Inl_iff [of env] by blast
  then show ?thesis
  proof cases
    case none
    then show ?thesis by (simp add: POST_def reply_def)
  next
    case bad
    then show ?thesis by (simp add: POST_def reply_def cvText_def)
  next
    case empty
    then show ?thesis by (simp add: POST_def reply_def)
  qed
qed

theorem input_errors_rejected_witness:
  "falsy_string None
   \<and> status (POST (stub_env None (Completed None)) (FormData None None)) = 400
   \<and> model_calls (POST (stub_env None (Completed None)) (FormData None None)) = []
   \<and> unsupported_type png_file
   \<and> status (POST (stub_env (Some (js ''sk-test'')) (Completed None)) (FormData None (Some png_file))) = 400
   \<and> model_calls (POST (stub_env (Some (js ''sk-test'')) (Completed None)) (FormData None (Some png_file))) = []
   \<and> extraction_fails (stub_env (Some (js ''sk-test'')) (Completed None)) pdf_file
   \<and> status (POST (stub_env (Some (js ''sk-test'')) (Completed None)) (FormData None (Some pdf_file))) = 400
   \<and> model_calls (POST (stub_env (Some (js ''sk-test'')) (Completed None)) (FormData None (Some pdf_file))) = []
   \<and> trim (js ''   '') = []
   \<and> status (POST (stub_env (Some (js ''sk-test'')) (Completed None)) (FormData (Some (js ''   '')) None)) = 400
   \<and> model_calls (POST (stub_env (Some (js ''sk-test'')) (Completed None)) (FormData (Some (js ''   '')) None)) = []
   \<and> status (POST (stub_env None (Completed None)) (FormData None (Some png_file))) = 500
   \<and> model_calls (POST (stub_env None (Completed None)) (FormData None (Some png_file))) = []"
proof -
  let ?E = "stub_env (Some (js ''sk-test'')) (Completed None)"
  let ?N = "stub_env None (Completed None)"
  have nokey: "falsy_string (OPENAI_API_KEY ?N)"
    by (simp add: stub_env_simps falsy_string_def)
  have blank: "cvText ?E (Some (js ''   '')) None = Inr (js ''   '')"
    by (simp add: cvText_def or_empty_def)
  have blank_text: "\<not> falsy_string (Some (js ''   ''))"
    by (simp add: falsy_string_def js_def)
  show ?thesis
    using input_errors_rejected [of None None ?N]
      input_errors_rejected [of None "Some png_file" ?E]
      input_errors_rejected [of None "Some pdf_file" ?E]
      input_errors_rejected [of "Some (js ''   '')" None ?E]
      input_errors_rejected [of None "Some png_file" ?N]
    by (simp add: png_unsupported pdf_fails trim_blank key_configured nokey blank blank_text)
      (simp add: falsy_string_def)
qed

text \<open>
  C5 as stated fails: a file of an unsupported type sent to a server without an API key
  is answered with status 500.
\<close>

theorem unsupported_type_without_key_counterexample:
  "unsupported_type png_file
   \<and> status (POST (stub_env None (Completed None)) (FormData None (Some png_file))) = 500"
  by (simp add: png_unsupported POST_def reply_def falsy_string_def stub_env_simps)

subsection \<open>Unparseable answers\<close>

lemma respond_unparseable:
  assumes "JSON_parse content = None"
  shows "match_braces content = None \<Longrightarrow>
           respond env content = (502, ErrorBody (js ''Failed to parse model response''))"
    and "match_braces content = Some m \<Longrightarrow> JSON_parse m = None \<Longrightarrow>
           respond env content = (500, EngineErrorBody SyntaxError)"
  using assms by (simp_all add: respond_def parse_content_def)

lemma parse_braces_a: "JSON_parse (js ''{a}'') = None"
  by code_simp

lemma match_braces_a: "match_braces (js ''{a}'') = Some (js ''{a}'')"
  by (simp add: match_braces_def js_def)

lemma parse_not_json: "JSON_parse (js ''not json at all'') = None"
  by code_simp

lemma respond_not_json:
  "respond env (js ''not json at all'') = (502, ErrorBody (js ''Failed to parse model response''))"
  by (rule respond_unparseable(1) [OF parse_not_json]) (simp add: match_braces_def js_def)

lemma respond_empty_string:
  "respond env [] = (502, ErrorBody (js ''Failed to parse model response''))"
  by (simp add: respond_def parse_content_def JSON_parse_def match_braces_def)

text \<open>
  C1 at the answer \<^verbatim>\<open>{a}\<close>. Both parse attempts fail: the text is no JSON, and the
  substring from its first \<^verbatim>\<open>{\<close> to its last \<^verbatim>\<open>}\<close> is the text itself. The second
  \<^verbatim>\<open>JSON.parse\<close> throws outside the inner \<^verbatim>\<open>try\<close>, and the request is answered with status
  500 and the engine's message, not with status 502.
\<close>

theorem unparseable_braces_answered_500:
  "JSON_parse (js ''{a}'') = None
   \<and> match_braces (js ''{a}'') = Some (js ''{a}'')
   \<and> POST (stub_env (Some (js ''sk-test'')) (Completed (Some (js ''{a}''))))
        (FormData (Some (js ''Jane'')) None) =
       \<lparr>status = 500, body = EngineErrorBody SyntaxError,
        model_calls = [buildPrompt (js ''Jane'')]\<rparr>"
  by (simp add: parse_braces_a match_braces_a
      POST_reaches_model [OF key_configured cvText_Jane trim_Jane_nonempty]
      stub_env_simps reply_def
      respond_unparseable(2) [OF parse_braces_a match_braces_a parse_braces_a])


subsection \<open>The sanitizer\<close>

lemma map_String_strings: "map_String n2s d (map JStr ss) = Inr ss"
  by (induction ss) simp_all

lemma Math_round_int: "Math_round (of_int n) = n"
  unfolding Math_round_def by (rule floor_unique) simp_all

lemma sanitizeScore_int: "1 \<le> n \<Longrightarrow> n \<le> 10 \<Longrightarrow> sanitizeScore (Finite (of_int n)) = n"
  by (simp add: sanitizeScore_def Math_round_int)

text \<open>
  C7. A parsed object that already matches the review schema (its three list properties
  are arrays of at most 10 non-empty strings, its score an integer from 1 to 10) is
  returned with the same four field values.
\<close>

theorem sanitize_keeps_well_formed:
  assumes "get_property parsed (js ''strengths'') = Some (JArr (map JStr ss))"
    and "get_property parsed (js ''weaknesses'') = Some (JArr (map JStr ws))"
    and "get_property parsed (js ''suggestions'') = Some (JArr (map JStr gs))"
    and "get_property parsed (js ''score'') = Some (JNum (Finite (of_int n)))"
    and "length ss \<le> 10" and "length ws \<le> 10" and "length gs \<le> 10"
    and "[] \<notin> set ss" and "[] \<notin> set ws" and "[] \<notin> set gs"
    and "1 \<le> n" and "n \<le> 10"
  shows "sanitize env parsed =
           Inr \<lparr>strengths = ss, weaknesses = ws, suggestions = gs, score = n\<rparr>"
proof -
  have keep: "take 10 (filter (\<lambda>s. s \<noteq> []) xs) = xs" if "length xs \<le> 10" "[] \<notin> set xs"
    for xs :: "jstring list"
  proof -
    from that(2) have "filter (\<lambda>s. s \<noteq> []) xs = xs"
      by (induction xs) auto
    with that(1) show ?thesis by simp
  qed
  show ?thesis
    using assms
    by (simp add: sanitize_def sanitizeArray_def map_String_strings keep sanitizeScore_int)
qed

theorem sanitize_keeps_well_formed_witness:
  "get_property sample_review_json (js ''strengths'') = Some (JArr (map JStr [js ''Clear'']))
   \<and> get_property sample_review_json (js ''weaknesses'') = Some (JArr (map JStr [js ''No metrics'']))
   \<and> get_property sample_review_json (js ''suggestions'')
       = Some (JArr (map JStr [js ''Add numbers'', js ''Shorten'']))
   \<and> get_property sample_review_json (js ''score'') = Some (JNum (Finite (of_int 7)))
   \<and> sanitize (stub_env None (Completed None)) sample_review_json =
       Inr \<lparr>strengths = [js ''Clear''], weaknesses = [js ''No metrics''],
            suggestions = [js ''Add numbers'', js ''Shorten''], score = 7\<rparr>"
proof -
  have 1: "get_property sample_review_json (js ''strengths'') = Some (JArr (map JStr [js ''Clear'']))"
    by (simp add: sample_review_json_def js_def)
  have 2: "get_property sample_review_json (js ''weaknesses'') = Some (JArr (map JStr [js ''No metrics'']))"
    by (simp add: sample_review_json_def js_def)
  have 3: "get_property sample_review_json (js ''suggestions'')
             = Some (JArr (map JStr [js ''Add numbers'', js ''Shorten'']))"
    by (simp add: sample_review_json_def js_def)
  have 4: "get_property sample_review_json (js ''score'') = Some (JNum (Finite (of_int 7)))"
    by (simp add: sample_review_json_def js_def)
  have 5: "[] \<notin> set [js ''Clear'']" "[] \<notin> set [js ''No metrics'']"
    "[] \<notin> set [js ''Add numbers'', js ''Shorten'']"
    by (simp_all add: js_def)
  from sanitize_keeps_well_formed [OF 1 2 3 4 _ _ _ 5, of "stub_env None (Completed None)"] 1 2 3 4
  show ?thesis by simp
qed

lemma ToString_returns_iff:
  "(\<exists>s. ToString n2s d v = Inr s) \<longleftrightarrow> converts d v"
  "(\<exists>ss. join_elements n2s d xs = Inr ss) \<longleftrightarrow> (\<forall>x\<in>set xs. converts d x)"
  by (induction n2s d v and n2s d xs rule: ToString_join_elements.induct)
    (auto split: sum.splits)

lemma ToString_throws:
  "ToString n2s d v = Inl e \<Longrightarrow> e = TypeError \<or> e = RangeError"
  "join_elements n2s d xs = Inl e \<Longrightarrow> e = TypeError \<or> e = RangeError"
  by (induction n2s d v and n2s d xs arbitrary: e and e rule: ToString_join_elements.induct)
    (auto split: sum.splits if_splits)

text \<open>An array nested deeper than the call stack admits ends the conversion.\<close>

lemma JNull_not_nested: "nested k \<noteq> JNull"
  by (cases k) simp_all

lemma ToString_nested:
  "ToString n2s d (nested k) = (if k < d then Inr [] else Inl RangeError)"
proof (induction k arbitrary: d)
  case 0
  show ?case by simp
next
  case (Suc k)
  show ?case
  proof (cases d)
    case 0
    then show ?thesis by simp
  next
    case (Suc d')
    with Suc.IH [of d'] show ?thesis by (auto simp: JNull_not_nested)
  qed
qed

lemma map_String_returns_iff:
  "(\<exists>ss. map_String n2s d xs = Inr ss) \<longleftrightarrow> (\<forall>x\<in>set xs. converts d x)"
proof (induction xs)
  case Nil
  show ?case by simp
next
  case (Cons a xs)
  then show ?case
    using ToString_returns_iff(1) [of n2s d a] by (auto split: sum.splits)
qed

lemma sanitizeArray_returns_iff:
  "(\<exists>l. sanitizeArray env x = Inr l) \<longleftrightarrow> field_converts (String_call_depth env) x"
proof (cases "\<exists>xs. x = Some (JArr xs)")
  case True
  then obtain xs where "x = Some (JArr xs)" by blast
  then show ?thesis
    using map_String_returns_iff [of "NumberToString env" "String_call_depth env" xs]
    by (auto simp: sanitizeArray_def field_converts_def split: sum.splits)
next
  case False
  then show ?thesis
    by (auto simp: sanitizeArray_def field_converts_def split: option.splits json.splits)
qed

lemma ToNumber_returns_iff:
  "(\<exists>n. ToNumber n2s s2n d x = Inr n) \<longleftrightarrow> number_converts d x"
proof (cases x)
  case None
  then show ?thesis by (simp add: number_converts_def)
next
  case (Some v)
  then show ?thesis
    using ToString_returns_iff(1) [of n2s d v]
    by (cases v) (auto simp: number_converts_def split: sum.splits)
qed

text \<open>
  The sanitizer returns a review exactly when none of its four conversions throws: no
  converted value is or holds an object with an own member \<^verbatim>\<open>toString\<close>, and none is
  nested deeper than the call stack admits. A conversion that throws ends the request
  with status 500.
\<close>

lemma sanitize_returns_iff:
  "(\<exists>r. sanitize env parsed = Inr r) \<longleftrightarrow>
     number_converts (Number_call_depth env) (get_property parsed (js ''score''))
     \<and> field_converts (String_call_depth env) (get_property parsed (js ''strengths''))
     \<and> field_converts (String_call_depth env) (get_property parsed (js ''weaknesses''))
     \<and> field_converts (String_call_depth env) (get_property parsed (js ''suggestions''))"
  using ToNumber_returns_iff [of "NumberToString env" "StringToNumber env"
      "Number_call_depth env" "get_property parsed (js ''score'')"]
    sanitizeArray_returns_iff [of env "get_property parsed (js ''strengths'')"]
    sanitizeArray_returns_iff [of env "get_property parsed (js ''weaknesses'')"]
    sanitizeArray_returns_iff [of env "get_property parsed (js ''suggestions'')"]
  by (auto simp: sanitize_def split: sum.splits)

lemma sanitize_throws:
  "sanitize env parsed = Inl e \<Longrightarrow> e = TypeError \<or> e = RangeError"
proof -
  have num: "ToNumber n2s s2n d x = Inl e' \<Longrightarrow> e' = TypeError \<or> e' = RangeError"
    for n2s s2n d x e'
    by (cases "(n2s, s2n, d, x)" rule: ToNumber.cases)
      (auto split: sum.splits if_splits dest: ToString_throws)
  have str: "map_String n2s d xs = Inl e' \<Longrightarrow> e' = TypeError \<or> e' = RangeError"
    for n2s d xs e'
    by (induction xs) (auto split: sum.splits dest: ToString_throws)
  have arr: "sanitizeArray env x = Inl e' \<Longrightarrow> e' = TypeError \<or> e' = RangeError" for x e'
    by (auto simp: sanitizeArray_def split: option.splits json.splits sum.splits dest: str)
  assume "sanitize env parsed = Inl e"
  then show ?thesis
    by (auto simp: sanitize_def split: sum.splits dest: num arr)
qed

lemma sanitize_nested_element:
  "String_call_depth env \<le> k \<Longrightarrow>
     sanitize env (JObj [(js ''strengths'', JArr [nested k])]) = Inl RangeError"
  by (simp add: sanitize_def sanitizeArray_def ToString_nested js_def)

lemma sanitize_throws_status:
  "JSON_parse content = Some v \<Longrightarrow> truthy v \<Longrightarrow> sanitize env v = Inl e \<Longrightarrow>
     fst (respond env content) = 500"
  by (auto simp: respond_parsed dest: sanitize_throws)

lemma sanitizeArray_array:
  "map_String (NumberToString env) (String_call_depth env) xs = Inr ss \<Longrightarrow>
     sanitizeArray env (Some (JArr xs)) = Inr (filter (\<lambda>s. s \<noteq> []) ss)"
  by (simp add: sanitizeArray_def)

lemma sanitizeArray_not_array:
  "(\<And>xs. x \<noteq> Some (JArr xs)) \<Longrightarrow> sanitizeArray env x = Inr []"
  by (auto simp: sanitizeArray_def split: option.splits json.splits)

lemma sanitize_lists:
  assumes "sanitize env parsed = Inr r"
  shows "sanitizeArray env (get_property parsed (js ''strengths'')) = Inr s \<Longrightarrow>
           strengths r = take 10 s"
    and "sanitizeArray env (get_property parsed (js ''weaknesses'')) = Inr w \<Longrightarrow>
           weaknesses r = take 10 w"
    and "sanitizeArray env (get_property parsed (js ''suggestions'')) = Inr g \<Longrightarrow>
           suggestions r = take 10 g"
  using assms by (auto simp: sanitize_def split: sum.splits)

lemma sanitize_lists_bounded:
  assumes "sanitize env parsed = Inr r"
  shows "length (strengths r) \<le> 10 \<and> [] \<notin> set (strengths r)"
    and "length (weaknesses r) \<le> 10 \<and> [] \<notin> set (weaknesses r)"
    and "length (suggestions r) \<le> 10 \<and> [] \<notin> set (suggestions r)"
proof -
  have "[] \<notin> set (take 10 l)" if "sanitizeArray env x = Inr l" for x l
  proof -
    from that have "[] \<notin> set l"
      by (auto simp: sanitizeArray_def split: option.splits json.splits sum.splits)
    then show ?thesis by (auto dest: in_set_takeD)
  qed
  with assms show "length (strengths r) \<le> 10 \<and> [] \<notin> set (strengths r)"
    and "length (weaknesses r) \<le> 10 \<and> [] \<notin> set (weaknesses r)"
    and "length (suggestions r) \<le> 10 \<and> [] \<notin> set (suggestions r)"
    by (auto simp: sanitize_def split: sum.splits)
qed

lemma Math_round_nearest:
  "\<bar>of_int (Math_round x) - x\<bar> \<le> 1 / 2" "\<bar>of_int k - x\<bar> < 1 / 2 \<Longrightarrow> Math_round x = k"
proof -
  show "\<bar>of_int (Math_round x) - x\<bar> \<le> 1 / 2"
    unfolding Math_round_def by linarith
  show "\<bar>of_int k - x\<bar> < 1 / 2 \<Longrightarrow> Math_round x = k"
    unfolding Math_round_def by (intro floor_unique) linarith+
qed

lemma sanitizeScore_cases:
  "\<not> isFinite n \<Longrightarrow> sanitizeScore n = 0"
  "sanitizeScore (Finite x) = min 10 (max 1 (Math_round x))"
  "1 \<le> sanitizeScore (Finite x) \<and> sanitizeScore (Finite x) \<le> 10"
  "sanitizeScore n \<in> {0} \<union> {1..10}"
  by (auto simp: sanitizeScore_def isFinite_def split: jsnum.splits)

lemma sanitize_score:
  assumes "sanitize env parsed = Inr r"
    and "ToNumber (NumberToString env) (StringToNumber env) (Number_call_depth env)
           (get_property parsed (js ''score'')) = Inr n"
  shows "score r = sanitizeScore n"
  using assms by (auto simp: sanitize_def split: sum.splits)

text \<open>The answer with wrapping prose of the specification is sanitized as it says.\<close>

lemma parse_wrapped_answer: "JSON_parse wrapped_answer = None"
  unfolding wrapped_answer_def by code_simp

lemma match_wrapped_answer:
  "match_braces wrapped_answer =
     Some (js ''{\"strengths\":[\"a\"],\"weaknesses\":[],\"suggestions\":[\"b\",\"b\",\"\"],\"score\":15}'')"
  by (simp add: wrapped_answer_def match_braces_def js_def)

lemma parse_wrapped_object:
  "JSON_parse (js ''{\"strengths\":[\"a\"],\"weaknesses\":[],\"suggestions\":[\"b\",\"b\",\"\"],\"score\":15}'') =
     Some (JObj [(js ''strengths'', JArr [JStr (js ''a'')]),
                 (js ''weaknesses'', JArr []),
                 (js ''suggestions'', JArr [JStr (js ''b''), JStr (js ''b''), JStr []]),
                 (js ''score'', JNum (Finite 15))])"
  by code_simp

lemma sanitize_wrapped_object:
  "sanitize env (JObj [(js ''strengths'', JArr [JStr (js ''a'')]),
                       (js ''weaknesses'', JArr []),
                       (js ''suggestions'', JArr [JStr (js ''b''), JStr (js ''b''), JStr []]),
                       (js ''score'', JNum (Finite 15))]) =
     Inr \<lparr>strengths = [js ''a''], weaknesses = [], suggestions = [js ''b'', js ''b''], score = 10\<rparr>"
  by (simp add: sanitize_def sanitizeArray_def sanitizeScore_def Math_round_def js_def)

lemma respond_wrapped_answer:
  "respond env wrapped_answer =
     (200, ReviewBody \<lparr>strengths = [js ''a''], weaknesses = [],
                        suggestions = [js ''b'', js ''b''], score = 10\<rparr>)"
  by (simp add: respond_def parse_content_def parse_wrapped_answer match_wrapped_answer
      parse_wrapped_object sanitize_wrapped_object)

lemma parse_toString_element:
  "JSON_parse (js ''{\"strengths\":[{\"toString\":1}]}'') =
     Some (JObj [(js ''strengths'', JArr [JObj [(js ''toString'', JNum (Finite 1))]])])"
  by code_simp

lemma parse_toString_score:
  "JSON_parse (js ''{\"score\":{\"toString\":1}}'') =
     Some (JObj [(js ''score'', JObj [(js ''toString'', JNum (Finite 1))])])"
  by code_simp

lemma sanitize_toString_element:
  "sanitize env (JObj [(js ''strengths'', JArr [JObj [(js ''toString'', JNum (Finite 1))]])])
     = Inl TypeError"
  by (simp add: sanitize_def sanitizeArray_def has_own_def js_def)

lemma sanitize_toString_score:
  "sanitize env (JObj [(js ''score'', JObj [(js ''toString'', JNum (Finite 1))])]) = Inl TypeError"
  by (simp add: sanitize_def has_own_def js_def)

text \<open>
  C3 at the answer \<^verbatim>\<open>{"strengths":[{"toString":1}]}\<close>. The field is an array, and
  \<^verbatim>\<open>String\<close> throws a \<^verbatim>\<open>TypeError\<close> on its element: the request is answered with status
  500 and no review, where the claim has a list of string forms.
\<close>

theorem list_element_with_toString_answered_500:
  "JSON_parse (js ''{\"strengths\":[{\"toString\":1}]}'') =
     Some (JObj [(js ''strengths'', JArr [JObj [(js ''toString'', JNum (Finite 1))]])])
   \<and> POST (stub_env (Some (js ''sk-test'')) (Completed (Some (js ''{\"strengths\":[{\"toString\":1}]}''))))
        (FormData (Some (js ''Jane'')) None) =
       \<lparr>status = 500, body = EngineErrorBody TypeError,
        model_calls = [buildPrompt (js ''Jane'')]\<rparr>"
  by (simp add: parse_toString_element
      POST_reaches_model [OF key_configured cvText_Jane trim_Jane_nonempty]
      stub_env_simps reply_def respond_parsed [OF parse_toString_element]
      sanitize_toString_element)

text \<open>
  C4 at the answer \<^verbatim>\<open>{"score":{"toString":1}}\<close>. \<^verbatim>\<open>Number\<close> throws a \<^verbatim>\<open>TypeError\<close> on the
  score: the request is answered with status 500 and no review, where the claim has the
  score 0 of a value that is no finite number.
\<close>

theorem score_with_toString_answered_500:
  "JSON_parse (js ''{\"score\":{\"toString\":1}}'') =
     Some (JObj [(js ''score'', JObj [(js ''toString'', JNum (Finite 1))])])
   \<and> POST (stub_env (Some (js ''sk-test'')) (Completed (Some (js ''{\"score\":{\"toString\":1}}''))))
        (FormData (Some (js ''Jane'')) None) =
       \<lparr>status = 500, body = EngineErrorBody TypeError,
        model_calls = [buildPrompt (js ''Jane'')]\<rparr>"
  by (simp add: parse_toString_score
      POST_reaches_model [OF key_configured cvText_Jane trim_Jane_nonempty]
      stub_env_simps reply_def respond_parsed [OF parse_toString_score]
      sanitize_toString_score)


end
